theory Spec2Isabelle
  imports Complex_Main "HOL-Library.Word" "HOL-Library.Sublist"
begin

section \<open>JavaScript values used by the component\<close>

text \<open>
  The program is the React component tree of \<^verbatim>\<open>frontend/src/App.jsx\<close>: the hook
  \<^verbatim>\<open>useKakaoLoader\<close>, the component \<^verbatim>\<open>MapPicker\<close> and the component \<^verbatim>\<open>App\<close>. The repository
  holds a second copy of the file, modelled after the first where the two differ.
  A JavaScript string is a sequence of UTF-16 code units; the literals of the source that
  are not ASCII are written as their code units.
\<close>

type_synonym jsstring = "16 word list"

definition ascii :: "string \<Rightarrow> jsstring" where
  "ascii s = map of_char s"

definition str_includes :: "jsstring \<Rightarrow> jsstring \<Rightarrow> bool" where
  \<comment> \<open>\<^verbatim>\<open>s.includes(t)\<close>: \<open>t\<close> occurs in \<open>s\<close> as a contiguous run of code units.\<close>
  "str_includes s t = sublist t s"

definition is_white_space :: "16 word \<Rightarrow> bool" where
  \<comment> \<open>The WhiteSpace and LineTerminator code points of ECMAScript, all of one code unit.\<close>
  "is_white_space c = (c \<in> set [0x9, 0xA, 0xB, 0xC, 0xD, 0x20, 0xA0, 0x1680,
      0x2000, 0x2001, 0x2002, 0x2003, 0x2004, 0x2005, 0x2006, 0x2007, 0x2008, 0x2009, 0x200A,
      0x2028, 0x2029, 0x202F, 0x205F, 0x3000, 0xFEFF])"

definition trim :: "jsstring \<Rightarrow> jsstring" where
  \<comment> \<open>\<^verbatim>\<open>s.trim()\<close>\<close>
  "trim s = rev (dropWhile is_white_space (rev (dropWhile is_white_space s)))"

definition truthy :: "jsstring option \<Rightarrow> bool" where
  \<comment> \<open>Truthiness of a value that is a string, \<^verbatim>\<open>null\<close> or \<^verbatim>\<open>undefined\<close>: the empty string is falsy.\<close>
  "truthy v = (case v of None \<Rightarrow> False | Some s \<Rightarrow> s \<noteq> [])"

definition shown_if_truthy :: "jsstring option \<Rightarrow> jsstring option" where
  \<comment> \<open>\<^verbatim>\<open>v && ...{v}...\<close> and \<^verbatim>\<open>if (v) ...{v}...\<close>: what is shown of \<open>v\<close>, if anything\<close>
  "shown_if_truthy v = (if truthy v then v else None)"

text \<open>
  A JavaScript number is NaN, an infinity, or a finite double, kept as the rational it
  denotes (both zeros are \<open>Fin 0\<close>).
\<close>

datatype number = NaN | PosInfinity | NegInfinity | Fin rat

fun gt_zero :: "number \<Rightarrow> bool" where
  \<comment> \<open>\<^verbatim>\<open>x > 0\<close>\<close>
  "gt_zero NaN = False"
| "gt_zero PosInfinity = True"
| "gt_zero NegInfinity = False"
| "gt_zero (Fin q) = (0 < q)"

fun times_two :: "number \<Rightarrow> number" where
  \<comment> \<open>\<^verbatim>\<open>x * 2\<close>: doubling a double is exact unless it overflows.\<close>
  "times_two NaN = NaN"
| "times_two PosInfinity = PosInfinity"
| "times_two NegInfinity = NegInfinity"
| "times_two (Fin q) =
     (if \<bar>q\<bar> < 2 ^ 1023 then Fin (2 * q) else if 0 < q then PosInfinity else NegInfinity)"

text \<open>
  Text put on the page is a string, or a number that React converts with the number's
  own \<^verbatim>\<open>toString\<close>, which is not unfolded here.
\<close>

datatype rendered = Str jsstring | Number_toString number

fun decimal :: "nat \<Rightarrow> jsstring" where
  "decimal n = (if n < 10 then [48 + of_nat n] else decimal (n div 10) @ [48 + of_nat (n mod 10)])"

declare decimal.simps [simp del]

definition toFixed1 :: "number \<Rightarrow> rendered" where
  \<comment> \<open>\<^verbatim>\<open>x.toFixed(1)\<close>, after Number.prototype.toFixed of ECMAScript with one fraction
      digit: the nearest tenth, the larger one on a tie, written with at least one digit
      before the point; a value that is not finite, or of magnitude \<open>10\<^sup>2\<^sup>1\<close> or more, is
      written by \<^verbatim>\<open>toString\<close>.\<close>
  "toFixed1 x =
     (case x of
        Fin q \<Rightarrow>
          if 10 ^ 21 \<le> \<bar>q\<bar> then Number_toString x
          else
            let n = nat \<lfloor>\<bar>q\<bar> * 10 + 1 / 2\<rfloor>;
                m = decimal n;
                m = (if length m \<le> 1 then replicate (2 - length m) 48 @ m else m);
                k = length m
            in Str ((if q < 0 then ascii ''-'' else []) @ take (k - 1) m @ ascii ''.'' @ drop (k - 1) m)
      | _ \<Rightarrow> Number_toString x)"

section \<open>Configuration and the browser\<close>

record config =
  KAKAO_JS_KEY :: "jsstring option"  \<comment> \<open>\<^verbatim>\<open>import.meta.env.VITE_KAKAO_JS_KEY\<close>, \<open>None\<close> when undefined\<close>
  BACKEND_URL :: "jsstring option"   \<comment> \<open>\<^verbatim>\<open>import.meta.env.VITE_BACKEND_URL\<close>\<close>

record window =
  kakao_maps :: bool  \<comment> \<open>\<^verbatim>\<open>window.kakao && window.kakao.maps\<close> is truthy\<close>
  maps_load :: bool   \<comment> \<open>\<^verbatim>\<open>window.kakao.maps.load\<close> is truthy\<close>
  maps_Map :: bool    \<comment> \<open>\<^verbatim>\<open>window.kakao.maps.Map\<close> is truthy\<close>

definition kakao_ready :: "window \<Rightarrow> bool" where
  \<comment> \<open>\<^verbatim>\<open>window.kakao && window.kakao.maps && window.kakao.maps.Map\<close>\<close>
  "kakao_ready w = (kakao_maps w \<and> maps_Map w)"

record script =
  script_id :: nat   \<comment> \<open>the identity of the element\<close>
  src :: jsstring

record browser =
  win :: window
  scripts :: "script list"  \<comment> \<open>the script elements in the document\<close>
  next_id :: nat            \<comment> \<open>the identity \<^verbatim>\<open>document.createElement\<close> gives the next element\<close>

definition existingScript :: "browser \<Rightarrow> script option" where
  \<comment> \<open>\<^verbatim>\<open>document.querySelector('script[src*="dapi.kakao.com"]')\<close>\<close>
  "existingScript br = find (\<lambda>sc. str_includes (src sc) (ascii ''dapi.kakao.com'')) (scripts br)"

section \<open>The hook useKakaoLoader\<close>

text \<open>
  The state of one instance of the hook: its two state variables (\<open>load_error\<close> is the
  variable the source calls \<^verbatim>\<open>error\<close>), and the callbacks it has registered that have
  not run yet.
\<close>

record loader =
  loaded :: bool
  load_error :: "jsstring option"
  poll_timer :: bool         \<comment> \<open>\<^verbatim>\<open>setTimeout(checkLoaded, 100)\<close> is pending\<close>
  script_elem :: "nat option"  \<comment> \<open>the element this instance appended to the head\<close>
  awaiting_script :: bool    \<comment> \<open>\<^verbatim>\<open>onload\<close> and \<^verbatim>\<open>onerror\<close> of that element have not fired\<close>
  awaiting_load :: bool      \<comment> \<open>the callback passed to \<^verbatim>\<open>kakao.maps.load\<close> has not been called\<close>

definition loader_init :: loader where
  "loader_init = \<lparr>loaded = False, load_error = None, poll_timer = False, script_elem = None,
     awaiting_script = False, awaiting_load = False\<rparr>"

definition checkLoaded :: "window \<Rightarrow> loader \<Rightarrow> loader" where
  "checkLoaded w l = (if kakao_ready w then l\<lparr>loaded := True\<rparr> else l\<lparr>poll_timer := True\<rparr>)"

definition sdk_src :: "jsstring \<Rightarrow> jsstring" where
  "sdk_src key = ascii ''//dapi.kakao.com/v2/maps/sdk.js?appkey='' @ key @ ascii ''&autoload=false''"

definition useKakaoLoader_effect :: "config \<Rightarrow> browser \<times> loader \<Rightarrow> browser \<times> loader" where
  \<comment> \<open>The body of the hook's \<^verbatim>\<open>useEffect\<close>, run once when the instance mounts.\<close>
  "useKakaoLoader_effect cfg = (\<lambda>(br, l).
     case KAKAO_JS_KEY cfg of
       None \<Rightarrow> (br, l\<lparr>load_error := Some (ascii ''KAKAO_JS_KEY is not set'')\<rparr>)
     | Some key \<Rightarrow>
         if key = [] then (br, l\<lparr>load_error := Some (ascii ''KAKAO_JS_KEY is not set'')\<rparr>)
         else if kakao_ready (win br) then (br, l\<lparr>loaded := True\<rparr>)
         else if existingScript br \<noteq> None then (br, checkLoaded (win br) l)
         else
           (br\<lparr>scripts := scripts br @ [\<lparr>script_id = next_id br, src = sdk_src key\<rparr>],
               next_id := Suc (next_id br)\<rparr>,
            l\<lparr>script_elem := Some (next_id br), awaiting_script := True\<rparr>))"

definition script_onload :: "window \<Rightarrow> loader \<Rightarrow> loader" where
  "script_onload w l =
     (if kakao_maps w \<and> maps_load w then l\<lparr>awaiting_script := False, awaiting_load := True\<rparr>
      else checkLoaded w (l\<lparr>awaiting_script := False\<rparr>))"

definition load_callback :: "loader \<Rightarrow> loader" where
  \<comment> \<open>the function passed to \<^verbatim>\<open>window.kakao.maps.load\<close>\<close>
  "load_callback l = l\<lparr>loaded := True, awaiting_load := False\<rparr>"

definition script_onerror :: "loader \<Rightarrow> loader" where
  "script_onerror l = l\<lparr>load_error := Some (ascii ''Failed to load Kakao Maps''), awaiting_script := False\<rparr>"

definition timer_fired :: "window \<Rightarrow> loader \<Rightarrow> loader" where
  \<comment> \<open>the pending timeout calls \<^verbatim>\<open>checkLoaded\<close>\<close>
  "timer_fired w l = checkLoaded w (l\<lparr>poll_timer := False\<rparr>)"

definition useKakaoLoader_cleanup :: "browser \<times> loader \<Rightarrow> browser" where
  \<comment> \<open>The function the effect returns on the path that appended a script; the other
      paths return nothing to clean up.\<close>
  "useKakaoLoader_cleanup = (\<lambda>(br, l).
     case script_elem l of
       None \<Rightarrow> br
     | Some i \<Rightarrow> br\<lparr>scripts := filter (\<lambda>sc. script_id sc \<noteq> i) (scripts br)\<rparr>)"

text \<open>
  Several instances mounting on one document: before each mount the page may have changed
  \<^verbatim>\<open>window.kakao\<close> (the SDK script running), given as the window that mount finds.
\<close>

fun mounts :: "config \<Rightarrow> window list \<Rightarrow> browser \<Rightarrow> browser \<times> loader list" where
  "mounts cfg [] br = (br, [])"
| "mounts cfg (w # ws) br =
     (let (br1, l) = useKakaoLoader_effect cfg (br\<lparr>win := w\<rparr>, loader_init);
          (br2, ls) = mounts cfg ws br1
      in (br2, l # ls))"

section \<open>The component MapPicker\<close>

record surface =
  marker :: "number \<times> number"  \<comment> \<open>the position of the one marker of the map\<close>

record picker =
  hook :: loader
  coords :: "(number \<times> number) option"
  map_surface :: "surface option"  \<comment> \<open>the map made on the container, with its marker and click listener\<close>
  maps_made :: nat                 \<comment> \<open>how many times \<^verbatim>\<open>new kakao.maps.Map\<close> has run\<close>

definition picker_init :: picker where
  "picker_init = \<lparr>hook = loader_init, coords = None, map_surface = None, maps_made = 0\<rparr>"

datatype picker_view =
  Error_placeholder jsstring
| Loading_placeholder
| Map_container "(number \<times> number) option"

definition MapPicker_render :: "picker \<Rightarrow> picker_view" where
  "MapPicker_render p =
     (case shown_if_truthy (load_error (hook p)) of
        Some e \<Rightarrow> Error_placeholder e
      | None \<Rightarrow> if \<not> loaded (hook p) then Loading_placeholder else Map_container (coords p))"

definition ref_current :: "picker \<Rightarrow> bool" where
  \<comment> \<open>\<^verbatim>\<open>ref.current\<close> is set exactly when the last render put the container on the page\<close>
  "ref_current p = (case MapPicker_render p of Map_container _ \<Rightarrow> True | _ \<Rightarrow> False)"

definition default_center :: "number \<times> number" where
  \<comment> \<open>\<^verbatim>\<open>new kakao.maps.LatLng(37.5665, 126.978)\<close>, as the doubles these literals denote\<close>
  "default_center = (Fin (5287014856300429 / 2 ^ 47), Fin (8935282398191419 / 2 ^ 46))"

definition MapPicker_effect :: "picker \<Rightarrow> picker" where
  \<comment> \<open>The component's own \<^verbatim>\<open>useEffect\<close>: it makes the map, puts the marker at the centre
      and registers the click listener.\<close>
  "MapPicker_effect p =
     (if \<not> loaded (hook p) \<or> \<not> ref_current p then p
      else p\<lparr>map_surface := Some \<lparr>marker = default_center\<rparr>, maps_made := Suc (maps_made p)\<rparr>)"

definition rerender :: "picker \<Rightarrow> picker \<Rightarrow> picker" where
  \<comment> \<open>After a state change React renders again and runs the effect when a dependency
      changed; \<^verbatim>\<open>onPick\<close> never changes, so that is when \<^verbatim>\<open>loaded\<close> did.\<close>
  "rerender old p = (if loaded (hook p) \<noteq> loaded (hook old) then MapPicker_effect p else p)"

section \<open>The component App\<close>

subsection \<open>The backend contract\<close>

record place =
  place_name :: jsstring
  distance_km :: number
  address_name :: "jsstring option"
  phone :: "jsstring option"

record response =
  selected_place :: "place option"  \<comment> \<open>\<open>None\<close> for \<^verbatim>\<open>null\<close> or an absent field\<close>
  candidates_considered :: number
  route_url :: jsstring

record request =
  start_lat :: "number option"
  start_lng :: "number option"
  req_distance_km :: number  \<comment> \<open>the field \<^verbatim>\<open>distance_km\<close> of the request body\<close>
  theme_keyword :: jsstring

record jserror =
  err_name :: jsstring
  err_message :: jsstring

definition error_toString :: "jserror \<Rightarrow> jsstring" where
  \<comment> \<open>\<^verbatim>\<open>String(e)\<close> of an error object: Error.prototype.toString\<close>
  "error_toString e =
     (if err_name e = [] then err_message e
      else if err_message e = [] then err_name e
      else err_name e @ ascii '': '' @ err_message e)"

definition new_Error :: "jsstring \<Rightarrow> jserror" where
  \<comment> \<open>\<^verbatim>\<open>new Error(message)\<close>\<close>
  "new_Error msg = \<lparr>err_name = ascii ''Error'', err_message = msg\<rparr>"

text \<open>
  What the awaited calls of \<^verbatim>\<open>submit\<close> give: \<^verbatim>\<open>fetch\<close>, \<^verbatim>\<open>r.text()\<close> or \<^verbatim>\<open>r.json()\<close>
  rejects with an error object; or the response is not ok and its body text is read; or
  the response is ok and its body parses to an object of the contract.
\<close>

datatype outcome = Rejected jserror | Not_ok jsstring | Ok_json response

subsection \<open>State and handlers\<close>

record app =
  lat :: "number option"
  lng :: "number option"
  distanceKm :: number
  theme :: jsstring
  loading :: bool
  result :: "response option"
  error :: "jsstring option"

definition app_init :: app where
  \<comment> \<open>the initial theme is the two-syllable literal of the source\<close>
  "app_init = \<lparr>lat = None, lng = None, distanceKm = Fin 5, theme = [0xCE74, 0xD398],
     loading = False, result = None, error = None\<rparr>"

definition canSubmit :: "app \<Rightarrow> bool" where
  "canSubmit a = (lat a \<noteq> None \<and> lng a \<noteq> None \<and> gt_zero (distanceKm a) \<and> 0 < length (trim (theme a)))"

definition onPick :: "number \<Rightarrow> number \<Rightarrow> app \<Rightarrow> app" where
  "onPick la lo a = a\<lparr>lat := Some la, lng := Some lo\<rparr>"

definition capability_message :: jsstring where
  \<comment> \<open>the literal passed to \<^verbatim>\<open>setError\<close> in the branch of the marker\<close>
  "capability_message = [75, 97, 107, 97, 111, 32, 76, 111, 99, 97, 108, 32, 65, 80, 73, 0xac00,
     32, 0xd65c, 0xc131, 0xd654, 0xb418, 0xc9c0, 32, 0xc54a, 0xc558, 0xc2b5, 0xb2c8, 0xb2e4, 46, 32,
     0xce74, 0xce74, 0xc624, 32, 0xac1c, 0xbc1c, 0xc790, 32, 0xcf58, 0xc194, 0xc5d0, 0xc11c, 32, 34,
     79, 80, 69, 78, 95, 77, 65, 80, 95, 65, 78, 68, 95, 76, 79, 67, 65, 76, 34, 32, 0xc11c, 0xbe44,
     0xc2a4, 0xb97c, 32, 0xd65c, 0xc131, 0xd654, 0xd574, 0xc8fc, 0xc138, 0xc694, 46]"

definition submit :: "config \<Rightarrow> app \<Rightarrow> (app \<times> request) option" where
  \<comment> \<open>\<^verbatim>\<open>submit\<close> up to its first \<^verbatim>\<open>await\<close>: \<open>None\<close> is the early return, otherwise the
      state after the three setters and the body of the request that \<^verbatim>\<open>fetch\<close> sends.\<close>
  "submit cfg a =
     (if \<not> canSubmit a \<or> \<not> truthy (BACKEND_URL cfg) then None
      else Some (a\<lparr>loading := True, error := None, result := None\<rparr>,
                 \<lparr>start_lat = lat a, start_lng = lng a, req_distance_km = distanceKm a,
                  theme_keyword = theme a\<rparr>))"

definition submit_catch :: "jserror \<Rightarrow> app \<Rightarrow> app" where
  \<comment> \<open>The \<^verbatim>\<open>catch\<close> block. The caught value is an error object, which has no \<^verbatim>\<open>text\<close>
      property, so \<^verbatim>\<open>errorText\<close> is \<^verbatim>\<open>String(e)\<close>.\<close>
  "submit_catch e a =
     (let errorText = error_toString e
      in if str_includes errorText (ascii ''OPEN_MAP_AND_LOCAL'')
         then a\<lparr>error := Some capability_message\<rparr>
         else a\<lparr>error := Some errorText\<rparr>)"

definition submit_resume :: "outcome \<Rightarrow> app \<Rightarrow> app" where
  \<comment> \<open>\<^verbatim>\<open>submit\<close> from its first \<^verbatim>\<open>await\<close> on, applied to the state of that moment\<close>
  "submit_resume out a =
     (let a1 = (case out of
                  Rejected e \<Rightarrow> submit_catch e a
                | Not_ok body \<Rightarrow> submit_catch (new_Error body) a
                | Ok_json data \<Rightarrow> a\<lparr>result := Some data\<rparr>)
      in a1\<lparr>loading := False\<rparr>)"

subsection \<open>Rendering\<close>

record place_view =
  shown_name :: jsstring
  one_way_km :: rendered
  round_trip_km :: rendered
  target_km :: rendered
  shown_address :: "jsstring option"
  shown_phone :: "jsstring option"
  shown_candidates :: rendered

datatype panel_body = Place_found place_view | Not_found_message jsstring

record panel =
  content :: panel_body
  route_href :: jsstring  \<comment> \<open>the \<^verbatim>\<open>href\<close> of the route link\<close>

record view =
  map_picker :: picker_view
  submit_disabled :: bool
  submit_label :: jsstring
  error_banner :: "jsstring option"
  result_panel :: "panel option"

definition not_found_text :: "jsstring \<Rightarrow> jsstring" where
  \<comment> \<open>the two lines of text around \<^verbatim>\<open>{theme}\<close> in the branch without a place\<close>
  "not_found_text th =
     [0xd574, 0xb2f9, 32, 0xc9c0, 0xc5ed, 0xc5d0, 0xc11c, 32, 39] @ th @
     [39, 32, 0xd14c, 0xb9c8, 0xc758, 32, 0xc7a5, 0xc18c, 0xb97c, 32, 0xcc3e, 0xc744, 32, 0xc218, 32,
      0xc5c6, 0xc2b5, 0xb2c8, 0xb2e4, 46, 32, 0xb2e4, 0xb978, 32, 0xd14c, 0xb9c8, 0xb098, 32, 0xac70,
      0xb9ac, 0xb97c, 32, 0xc2dc, 0xb3c4, 0xd574, 0xbcf4, 0xc138, 0xc694, 46]"

definition render_result :: "app \<Rightarrow> response \<Rightarrow> panel" where
  "render_result a r =
     \<lparr>content = (case selected_place r of
                Some p \<Rightarrow> Place_found
                  \<lparr>shown_name = place_name p,
                   one_way_km = Number_toString (distance_km p),
                   round_trip_km = toFixed1 (times_two (distance_km p)),
                   target_km = Number_toString (distanceKm a),
                   shown_address = shown_if_truthy (address_name p),
                   shown_phone = shown_if_truthy (phone p),
                   shown_candidates = Number_toString (candidates_considered r)\<rparr>
              | None \<Rightarrow> Not_found_message (not_found_text (theme a))),
      route_href = route_url r\<rparr>"

definition button_disabled :: "app \<Rightarrow> bool" where
  \<comment> \<open>\<^verbatim>\<open>disabled={!canSubmit || loading}\<close>\<close>
  "button_disabled a = (\<not> canSubmit a \<or> loading a)"

definition App_render :: "picker \<Rightarrow> app \<Rightarrow> view" where
  "App_render p a =
     \<lparr>map_picker = MapPicker_render p,
      submit_disabled = button_disabled a,
      submit_label = (if loading a then [0xcd94, 0xcc9c, 0xc911, 46, 46, 46]
                      else [0xcd94, 0xcc9c, 32, 0xbc1b, 0xae30]),
      error_banner = shown_if_truthy (error a),
      result_panel = map_option (render_result a) (result a)\<rparr>"

section \<open>The page as a transition system\<close>

text \<open>
  The state of the page: the document, the one \<^verbatim>\<open>MapPicker\<close> and the \<^verbatim>\<open>App\<close> around it,
  and the requests sent whose promise has not settled. Two logs record the calls made to
  the marker and to \<^verbatim>\<open>onPick\<close>.
\<close>

record page =
  doc :: browser
  mp :: picker
  ap :: app
  inflight :: "request list"
  setPosition_calls :: "(number \<times> number) list"
  onPick_calls :: "(number \<times> number) list"

definition page_init :: "browser \<Rightarrow> page" where
  "page_init br = \<lparr>doc = br, mp = picker_init, ap = app_init, inflight = [],
     setPosition_calls = [], onPick_calls = []\<rparr>"

datatype event =
  Mount                     \<comment> \<open>the effects of the first render run\<close>
| Window_update window      \<comment> \<open>the page changes \<^verbatim>\<open>window.kakao\<close>\<close>
| Script_load               \<comment> \<open>\<^verbatim>\<open>onload\<close> of the appended script\<close>
| Script_error              \<comment> \<open>\<^verbatim>\<open>onerror\<close> of the appended script\<close>
| Load_callback             \<comment> \<open>the SDK calls the function given to \<^verbatim>\<open>kakao.maps.load\<close>\<close>
| Timer                     \<comment> \<open>a pending timeout fires\<close>
| Map_click number number   \<comment> \<open>a click on the map at this latitude and longitude\<close>
| Edit_distance number      \<comment> \<open>\<^verbatim>\<open>setDistanceKm(Number(e.target.value))\<close>\<close>
| Edit_theme jsstring       \<comment> \<open>\<^verbatim>\<open>setTheme(e.target.value)\<close>\<close>
| Click_submit              \<comment> \<open>a click on the button\<close>
| Settle nat outcome        \<comment> \<open>the awaited calls of the request at this index settle\<close>

definition set_hook :: "loader \<Rightarrow> page \<Rightarrow> page" where
  \<comment> \<open>the hook's state changes; the picker renders again\<close>
  "set_hook l s = s\<lparr>mp := rerender (mp s) ((mp s)\<lparr>hook := l\<rparr>)\<rparr>"

definition click_listener :: "number \<Rightarrow> number \<Rightarrow> surface \<Rightarrow> page \<Rightarrow> page" where
  \<comment> \<open>the listener \<^verbatim>\<open>MapPicker\<close> registered on the map\<close>
  "click_listener la lo m s =
     s\<lparr>mp := (mp s)\<lparr>map_surface := Some (m\<lparr>marker := (la, lo)\<rparr>), coords := Some (la, lo)\<rparr>,
       ap := onPick la lo (ap s),
       setPosition_calls := setPosition_calls s @ [(la, lo)],
       onPick_calls := onPick_calls s @ [(la, lo)]\<rparr>"

fun step :: "config \<Rightarrow> event \<Rightarrow> page \<Rightarrow> page" where
  "step cfg Mount s =
     (let (br, l) = useKakaoLoader_effect cfg (doc s, hook (mp s))
      in set_hook l (s\<lparr>doc := br\<rparr>))"
| "step cfg (Window_update w) s = s\<lparr>doc := (doc s)\<lparr>win := w\<rparr>\<rparr>"
| "step cfg Script_load s =
     (if awaiting_script (hook (mp s)) then set_hook (script_onload (win (doc s)) (hook (mp s))) s else s)"
| "step cfg Script_error s =
     (if awaiting_script (hook (mp s)) then set_hook (script_onerror (hook (mp s))) s else s)"
| "step cfg Load_callback s =
     (if awaiting_load (hook (mp s)) then set_hook (load_callback (hook (mp s))) s else s)"
| "step cfg Timer s =
     (if poll_timer (hook (mp s)) then set_hook (timer_fired (win (doc s)) (hook (mp s))) s else s)"
| "step cfg (Map_click la lo) s =
     (case map_surface (mp s) of None \<Rightarrow> s | Some m \<Rightarrow> click_listener la lo m s)"
| "step cfg (Edit_distance d) s = s\<lparr>ap := (ap s)\<lparr>distanceKm := d\<rparr>\<rparr>"
| "step cfg (Edit_theme t) s = s\<lparr>ap := (ap s)\<lparr>theme := t\<rparr>\<rparr>"
| "step cfg Click_submit s =
     (if button_disabled (ap s) then s
      else case submit cfg (ap s) of
             None \<Rightarrow> s
           | Some (a, req) \<Rightarrow> s\<lparr>ap := a, inflight := inflight s @ [req]\<rparr>)"
| "step cfg (Settle i out) s =
     (if i < length (inflight s)
      then s\<lparr>ap := submit_resume out (ap s), inflight := take i (inflight s) @ drop (Suc i) (inflight s)\<rparr>
      else s)"

fun run :: "config \<Rightarrow> event list \<Rightarrow> page \<Rightarrow> page" where
  "run cfg [] s = s"
| "run cfg (e # es) s = run cfg es (step cfg e s)"

definition page_view :: "page \<Rightarrow> view" where
  "page_view s = App_render (mp s) (ap s)"

section \<open>The second copy of the component\<close>

text \<open>
  The repository holds a second, shorter copy of the same file. Its \<^verbatim>\<open>App\<close> state, \<^verbatim>\<open>canSubmit\<close>,
  \<^verbatim>\<open>onPick\<close>, \<^verbatim>\<open>submit\<close>, the button and the click listener of \<^verbatim>\<open>MapPicker\<close> are the same text
  as above, so the definitions above embed them too. It differs in the effect of the hook
  and in how a result is rendered; these two are modelled here.
\<close>

definition sdk_src_part000 :: "jsstring \<Rightarrow> jsstring" where
  "sdk_src_part000 key = ascii ''//dapi.kakao.com/v2/maps/sdk.js?appkey='' @ key"

definition useKakaoLoader_effect_part000 :: "config \<Rightarrow> browser \<times> loader \<Rightarrow> browser \<times> loader" where
  \<comment> \<open>It looks at \<^verbatim>\<open>window.kakao && window.kakao.maps\<close> before the key, and never looks for a
      script that is already in the document.\<close>
  "useKakaoLoader_effect_part000 cfg = (\<lambda>(br, l).
     if kakao_maps (win br) then (br, l\<lparr>loaded := True\<rparr>)
     else
       case KAKAO_JS_KEY cfg of
         None \<Rightarrow> (br, l\<lparr>load_error := Some (ascii ''KAKAO_JS_KEY is not set'')\<rparr>)
       | Some key \<Rightarrow>
           if key = [] then (br, l\<lparr>load_error := Some (ascii ''KAKAO_JS_KEY is not set'')\<rparr>)
           else
             (br\<lparr>scripts := scripts br @ [\<lparr>script_id = next_id br, src = sdk_src_part000 key\<rparr>],
                 next_id := Suc (next_id br)\<rparr>,
              l\<lparr>script_elem := Some (next_id br), awaiting_script := True\<rparr>))"


fun mounts_part000 :: "config \<Rightarrow> window list \<Rightarrow> browser \<Rightarrow> browser \<times> loader list" where
  "mounts_part000 cfg [] br = (br, [])"
| "mounts_part000 cfg (w # ws) br =
     (let (br1, l) = useKakaoLoader_effect_part000 cfg (br\<lparr>win := w\<rparr>, loader_init);
          (br2, ls) = mounts_part000 cfg ws br1
      in (br2, l # ls))"

record panel_part000 =
  place_line :: jsstring             \<comment> \<open>what follows the label of the recommended place\<close>
  not_found_note :: "jsstring option"
  route_href_part000 :: jsstring

definition render_result_part000 :: "app \<Rightarrow> response \<Rightarrow> panel_part000" where
  "render_result_part000 a r =
     \<lparr>place_line = (case selected_place r of Some p \<Rightarrow> place_name p | None \<Rightarrow> [0xc5c6, 0xc74c]),
      not_found_note =
        (if candidates_considered r = Fin 0
         then Some ([0xd574, 0xb2f9, 32, 0xc9c0, 0xc5ed, 0xc5d0, 0xc11c, 32, 39] @ theme a @
                    [39, 32, 0xd14c, 0xb9c8, 0xc758, 32, 0xc7a5, 0xc18c, 0xb97c, 32, 0xcc3e, 0xc744, 32,
                     0xc218, 32, 0xc5c6, 0xc2b5, 0xb2c8, 0xb2e4, 46])
         else None),
      route_href_part000 = route_url r\<rparr>"

section \<open>Auxiliary notions and sample inputs\<close>

definition accepts :: "config \<Rightarrow> page \<Rightarrow> bool" where
  \<comment> \<open>a click on the submit button sends a request\<close>
  "accepts cfg s = (length (inflight (step cfg Click_submit s)) = Suc (length (inflight s)))"

fun settles :: "event \<Rightarrow> bool" where
  \<comment> \<open>the event is the settling of a request\<close>
  "settles (Settle i out) = True"
| "settles _ = False"

definition example_config :: config where
  "example_config = \<lparr>KAKAO_JS_KEY = Some (ascii ''demo-key''), BACKEND_URL = Some (ascii ''http://localhost:8000'')\<rparr>"

definition config_without_backend :: config where
  "config_without_backend = \<lparr>KAKAO_JS_KEY = Some (ascii ''demo-key''), BACKEND_URL = None\<rparr>"


definition sdk_absent :: window where
  "sdk_absent = \<lparr>kakao_maps = False, maps_load = False, maps_Map = False\<rparr>"

definition sdk_fetched :: window where
  "sdk_fetched = \<lparr>kakao_maps = True, maps_load = True, maps_Map = False\<rparr>"

definition sdk_initialised :: window where
  "sdk_initialised = \<lparr>kakao_maps = True, maps_load = True, maps_Map = True\<rparr>"

definition fresh_browser :: browser where
  "fresh_browser = \<lparr>win = sdk_absent, scripts = [], next_id = 0\<rparr>"

definition map_becomes_ready :: "event list" where
  "map_becomes_ready =
     [Mount, Window_update sdk_fetched, Script_load, Window_update sdk_initialised, Load_callback]"

definition city_hall_click :: event where
  "city_hall_click = Map_click (Fin (5287014856300429 / 2 ^ 47)) (Fin (8935282398191419 / 2 ^ 46))"

definition cafe_x :: response where
  "cafe_x = \<lparr>selected_place = Some \<lparr>place_name = ascii ''Cafe X'',
       distance_km = Fin (2589569785738035 / 2 ^ 50), address_name = None, phone = None\<rparr>,
     candidates_considered = Fin 4, route_url = ascii ''https://map.kakao.com/link/to/1''\<rparr>"


definition app_inv :: "page \<Rightarrow> bool" where
  \<comment> \<open>Loading exactly while a request is in flight, of which there is at most one; while
      loading neither an error nor a result is stored; they are never both stored.\<close>
  "app_inv s =
     ((loading (ap s) \<longleftrightarrow> inflight s \<noteq> []) \<and> length (inflight s) \<le> 1 \<and>
      (loading (ap s) \<longrightarrow> error (ap s) = None \<and> result (ap s) = None) \<and>
      (error (ap s) = None \<or> result (ap s) = None))"

definition waiting_page :: page where
  \<comment> \<open>the map is ready, a start was picked, and one request is in flight\<close>
  "waiting_page = run example_config (map_becomes_ready @ [city_hall_click, Click_submit]) (page_init fresh_browser)"

definition page_without_backend :: page where
  \<comment> \<open>the map is ready and a start was picked, on a build without \<^verbatim>\<open>VITE_BACKEND_URL\<close>\<close>
  "page_without_backend = run config_without_backend (map_becomes_ready @ [city_hall_click]) (page_init fresh_browser)"

definition success_page :: page where
  \<comment> \<open>the request of \<open>waiting_page\<close> has come back with a place\<close>
  "success_page = step example_config (Settle 0 (Ok_json cafe_x)) waiting_page"

definition in_flight_clear :: "page \<Rightarrow> bool" where
  \<comment> \<open>loading, with neither an error nor a result stored\<close>
  "in_flight_clear s = (loading (ap s) \<and> error (ap s) = None \<and> result (ap s) = None)"

definition clicks :: "(number \<times> number) list \<Rightarrow> event list" where
  \<comment> \<open>a sequence of clicks on the map, each at a latitude and a longitude\<close>
  "clicks cs = map (\<lambda>(la, lo). Map_click la lo) cs"

definition ready_page :: page where
  \<comment> \<open>the SDK was fetched and initialised and the map was made\<close>
  "ready_page = run example_config map_becomes_ready (page_init fresh_browser)"

definition kakao_scripts :: "browser \<Rightarrow> script list" where
  \<comment> \<open>the script elements that the selector of the hook matches\<close>
  "kakao_scripts br = filter (\<lambda>sc. str_includes (src sc) (ascii ''dapi.kakao.com'')) (scripts br)"

definition waiting_browser :: browser where
  \<comment> \<open>a first instance has mounted and appended the SDK script, which has not run yet\<close>
  "waiting_browser = fst (mounts example_config [sdk_absent] fresh_browser)"



definition result_panel_part000 :: "app \<Rightarrow> panel_part000 option" where
  \<comment> \<open>\<^verbatim>\<open>{result && (...)}\<close> of the second copy\<close>
  "result_panel_part000 a = map_option (render_result_part000 a) (result a)"






section \<open>Properties\<close>

subsection \<open>Shared lemmas\<close>

lemma marker_not_in_prefix:
  "str_includes (ascii ''Error: '' @ txt) (ascii ''OPEN_MAP_AND_LOCAL'') =
   str_includes txt (ascii ''OPEN_MAP_AND_LOCAL'')"
  by (simp add: str_includes_def ascii_def sublist_code)

lemma marker_not_in_Error: "\<not> str_includes (ascii ''Error'') (ascii ''OPEN_MAP_AND_LOCAL'')"
  by (simp add: str_includes_def ascii_def sublist_code)

lemma error_toString_new_Error:
  "error_toString (new_Error txt) = (if txt = [] then ascii ''Error'' else ascii ''Error: '' @ txt)"
  by (simp add: error_toString_def new_Error_def ascii_def)

lemma includes_Nil: "str_includes [] (ascii ''OPEN_MAP_AND_LOCAL'') = False"
  by (simp add: str_includes_def ascii_def)

lemma includes_new_Error:
  "str_includes (error_toString (new_Error txt)) (ascii ''OPEN_MAP_AND_LOCAL'') =
   str_includes txt (ascii ''OPEN_MAP_AND_LOCAL'')"
  by (cases "txt = []") (simp_all add: error_toString_new_Error marker_not_in_prefix marker_not_in_Error includes_Nil)


lemma error_not_ok:
  "error (submit_resume (Not_ok txt) a) =
     Some (if str_includes txt (ascii ''OPEN_MAP_AND_LOCAL'') then capability_message
           else if txt = [] then ascii ''Error'' else ascii ''Error: '' @ txt)"
proof (cases "str_includes txt (ascii ''OPEN_MAP_AND_LOCAL'')")
  case True
  then show ?thesis
    by (simp add: submit_resume_def submit_catch_def Let_def includes_new_Error)
next
  case False
  then have "\<not> str_includes (error_toString (new_Error txt)) (ascii ''OPEN_MAP_AND_LOCAL'')"
    by (simp only: includes_new_Error not_False_eq_True)
  with False show ?thesis
    by (simp add: submit_resume_def submit_catch_def Let_def error_toString_new_Error)
qed

lemma step_app_inv: "app_inv s \<Longrightarrow> app_inv (step cfg e s)"
proof (cases e)
  case Click_submit
  assume "app_inv s"
  then show ?thesis using Click_submit
    by (auto simp: app_inv_def button_disabled_def submit_def split: option.splits)
next
  case (Settle i out)
  assume inv: "app_inv s"
  show ?thesis
  proof (cases "i < length (inflight s)")
    case False
    then show ?thesis using inv Settle by simp
  next
    case True
    with inv have i0: "i = 0" and len: "length (inflight s) = 1" and ld: "loading (ap s)"
      by (auto simp: app_inv_def)
    from inv ld have clr: "error (ap s) = None" "result (ap s) = None" by (auto simp: app_inv_def)
    show ?thesis using True i0 len clr Settle
      by (cases out) (simp_all add: app_inv_def submit_resume_def submit_catch_def Let_def)
  qed
qed (auto simp: app_inv_def set_hook_def click_listener_def onPick_def split: prod.splits option.splits)

lemma run_app_inv: "app_inv s \<Longrightarrow> app_inv (run cfg es s)"
  by (induction es arbitrary: s) (simp_all add: step_app_inv)

lemma page_init_inv: "app_inv (page_init br)"
  by (simp add: app_inv_def page_init_def app_init_def)

lemma reachable_inv: "app_inv (run cfg es (page_init br))"
  by (rule run_app_inv [OF page_init_inv])


lemma accepts_iff:
  "accepts cfg s \<longleftrightarrow> canSubmit (ap s) \<and> \<not> loading (ap s) \<and> truthy (BACKEND_URL cfg)"
  by (auto simp: accepts_def button_disabled_def submit_def)

lemma not_accepts_noop: "\<not> accepts cfg s \<Longrightarrow> step cfg Click_submit s = s"
  by (auto simp: accepts_def button_disabled_def submit_def)

subsection \<open>The submit gate\<close>

text \<open>
  Claim C1, as amended. On every page reached from the initial one, a click on the submit
  button sends a request exactly when a start is picked (\<open>lat\<close> and \<open>lng\<close> not null),
  \<open>distanceKm > 0\<close>, the theme is not empty after trimming, \<^verbatim>\<open>BACKEND_URL\<close> is set and no
  request is in flight; any other click changes nothing. The button is disabled exactly
  when the start is missing, or \<open>distanceKm > 0\<close> fails, or the theme trims to empty, or a
  request is in flight: the missing \<^verbatim>\<open>BACKEND_URL\<close> is not among the reasons.
\<close>

theorem submit_gate:
  "let s = run cfg es (page_init br) in
     (accepts cfg s \<longleftrightarrow>
        lat (ap s) \<noteq> None \<and> lng (ap s) \<noteq> None \<and> gt_zero (distanceKm (ap s)) \<and>
        trim (theme (ap s)) \<noteq> [] \<and> truthy (BACKEND_URL cfg) \<and> inflight s = []) \<and>
     (\<not> accepts cfg s \<longrightarrow> step cfg Click_submit s = s) \<and>
     (submit_disabled (page_view s) \<longleftrightarrow>
        lat (ap s) = None \<or> lng (ap s) = None \<or> \<not> gt_zero (distanceKm (ap s)) \<or>
        trim (theme (ap s)) = [] \<or> inflight s \<noteq> [])"
proof -
  define s where "s = run cfg es (page_init br)"
  have inv: "loading (ap s) \<longleftrightarrow> inflight s \<noteq> []"
    using reachable_inv [of cfg es br] by (simp add: s_def app_inv_def)
  have a: "accepts cfg s \<longleftrightarrow>
        lat (ap s) \<noteq> None \<and> lng (ap s) \<noteq> None \<and> gt_zero (distanceKm (ap s)) \<and>
        trim (theme (ap s)) \<noteq> [] \<and> truthy (BACKEND_URL cfg) \<and> inflight s = []"
    using inv by (auto simp: accepts_iff canSubmit_def)
  have b: "\<not> accepts cfg s \<longrightarrow> step cfg Click_submit s = s"
    using not_accepts_noop [of cfg s] by blast
  have c: "submit_disabled (page_view s) \<longleftrightarrow>
        lat (ap s) = None \<or> lng (ap s) = None \<or> \<not> gt_zero (distanceKm (ap s)) \<or>
        trim (theme (ap s)) = [] \<or> inflight s \<noteq> []"
    using inv by (auto simp: page_view_def App_render_def button_disabled_def canSubmit_def)
  from a b c show ?thesis unfolding s_def Let_def by blast
qed

theorem submit_gate_witness:
  "accepts example_config (run example_config (map_becomes_ready @ [city_hall_click]) (page_init fresh_browser)) \<and>
   \<not> submit_disabled (page_view (run example_config (map_becomes_ready @ [city_hall_click]) (page_init fresh_browser))) \<and>
   \<not> accepts example_config (run example_config map_becomes_ready (page_init fresh_browser)) \<and>
   step example_config Click_submit (run example_config map_becomes_ready (page_init fresh_browser))
     = run example_config map_becomes_ready (page_init fresh_browser) \<and>
   submit_disabled (page_view (run example_config map_becomes_ready (page_init fresh_browser)))"
proof -
  have a: "accepts example_config (run example_config (map_becomes_ready @ [city_hall_click]) (page_init fresh_browser))"
    by code_simp
  have b: "\<not> accepts example_config (run example_config map_becomes_ready (page_init fresh_browser))"
    by code_simp
  have c: "lat (ap (run example_config map_becomes_ready (page_init fresh_browser))) = None"
    by code_simp
  note g1 = submit_gate [of example_config "map_becomes_ready @ [city_hall_click]" fresh_browser, unfolded Let_def]
  note g0 = submit_gate [of example_config map_becomes_ready fresh_browser, unfolded Let_def]
  from g1 a have d1: "\<not> submit_disabled (page_view (run example_config (map_becomes_ready @ [city_hall_click]) (page_init fresh_browser)))"
    by simp
  from g0 b have n0: "step example_config Click_submit (run example_config map_becomes_ready (page_init fresh_browser))
     = run example_config map_becomes_ready (page_init fresh_browser)"
    by blast
  from g0 c have d0: "submit_disabled (page_view (run example_config map_becomes_ready (page_init fresh_browser)))"
    by simp
  from a b d1 n0 d0 show ?thesis by blast
qed

text \<open>
  The claim as it is written fails where only \<^verbatim>\<open>BACKEND_URL\<close> is missing: one of its five
  conditions fails and the button is enabled.
\<close>

theorem submit_button_counterexample:
  "\<not> (submit_disabled (page_view page_without_backend) \<longleftrightarrow>
      \<not> (lat (ap page_without_backend) \<noteq> None \<and> lng (ap page_without_backend) \<noteq> None \<and>
         gt_zero (distanceKm (ap page_without_backend)) \<and>
         trim (theme (ap page_without_backend)) \<noteq> [] \<and>
         truthy (BACKEND_URL config_without_backend) \<and>
         inflight page_without_backend = []))"
  by code_simp

subsection \<open>The error text of a response that is not ok\<close>

lemma settle_ap:
  "i < length (inflight s) \<Longrightarrow> ap (step cfg (Settle i out) s) = submit_resume out (ap s)"
  by simp



text \<open>
  Claim C3, as amended. When the body text of a response that is not ok does not contain
  \<^verbatim>\<open>OPEN_MAP_AND_LOCAL\<close>, the error stored is the string conversion of the \<^verbatim>\<open>Error\<close> object
  that \<^verbatim>\<open>submit\<close> throws around it: \<^verbatim>\<open>Error: \<close> followed by the body text, or \<^verbatim>\<open>Error\<close>
  alone when the body text is empty.
\<close>

theorem upstream_error_text:
  assumes "i < length (inflight s)"
    and "\<not> str_includes txt (ascii ''OPEN_MAP_AND_LOCAL'')"
  shows "error (ap (step cfg (Settle i (Not_ok txt)) s)) =
           Some (if txt = [] then ascii ''Error'' else ascii ''Error: '' @ txt)"
  using assms by (simp only: settle_ap error_not_ok if_False)

theorem upstream_error_text_witness:
  "0 < length (inflight waiting_page) \<and>
   \<not> str_includes (ascii ''upstream failed'') (ascii ''OPEN_MAP_AND_LOCAL'') \<and>
   error (ap (step example_config (Settle 0 (Not_ok (ascii ''upstream failed''))) waiting_page))
     = Some (ascii ''Error: upstream failed'')"
proof -
  have h1: "0 < length (inflight waiting_page)" by code_simp
  have h2: "\<not> str_includes (ascii ''upstream failed'') (ascii ''OPEN_MAP_AND_LOCAL'')"
    by code_simp
  have "ascii ''upstream failed'' \<noteq> []" by (simp add: ascii_def)
  moreover have "ascii ''Error: '' @ ascii ''upstream failed'' = ascii ''Error: upstream failed''"
    by (simp add: ascii_def)
  ultimately show ?thesis
    using h1 h2 upstream_error_text [OF h1 h2, of example_config] by simp
qed

text \<open>
  The claim as it is written asks for the body text itself; the stored text differs from
  it by the prefix.
\<close>

theorem raw_body_counterexample:
  "\<not> str_includes (ascii ''upstream failed'') (ascii ''OPEN_MAP_AND_LOCAL'') \<and>
   error (ap (step example_config (Settle 0 (Not_ok (ascii ''upstream failed''))) waiting_page))
     \<noteq> Some (ascii ''upstream failed'')"
  by code_simp

subsection \<open>Rendering a result\<close>

lemma result_panel_after_ok:
  "i < length (inflight s) \<Longrightarrow>
   result_panel (page_view (step cfg (Settle i (Ok_json r)) s)) = Some (render_result (ap s) r)"
  by (simp add: page_view_def App_render_def submit_resume_def render_result_def split: option.splits)






text \<open>
  The double that the JSON number \<^verbatim>\<open>2.3\<close> parses to is \<open>2589569785738035 / 2\<^sup>5\<^sup>0\<close>;
  twice its value, to one fraction digit, is \<^verbatim>\<open>4.6\<close>.
\<close>

lemma round_trip_of_2_3:
  "toFixed1 (times_two (Fin (2589569785738035 / 2 ^ 50))) = Str (ascii ''4.6'')"
  by code_simp

lemma scenario_cafe_x_app:
  assumes "i < length (inflight s)"
  shows "result_panel (page_view (step cfg (Settle i (Ok_json
           \<lparr>selected_place = Some \<lparr>place_name = ascii ''Cafe X'',
              distance_km = Fin (2589569785738035 / 2 ^ 50), address_name = ad, phone = ph\<rparr>,
            candidates_considered = Fin 4, route_url = url\<rparr>)) s)) =
         Some \<lparr>content = Place_found
                  \<lparr>shown_name = ascii ''Cafe X'',
                   one_way_km = Number_toString (Fin (2589569785738035 / 2 ^ 50)),
                   round_trip_km = Str (ascii ''4.6''),
                   target_km = Number_toString (distanceKm (ap s)),
                   shown_address = shown_if_truthy ad,
                   shown_phone = shown_if_truthy ph,
                   shown_candidates = Number_toString (Fin 4)\<rparr>,
               route_href = url\<rparr>"
  using assms
  by (simp only: result_panel_after_ok render_result_def response.simps place.simps option.case round_trip_of_2_3)

lemma scenario_cafe_x_part000:
  assumes "i < length (inflight s)"
  shows "result_panel_part000 (ap (step cfg (Settle i (Ok_json
           \<lparr>selected_place = Some \<lparr>place_name = ascii ''Cafe X'',
              distance_km = Fin (2589569785738035 / 2 ^ 50), address_name = ad, phone = ph\<rparr>,
            candidates_considered = Fin 4, route_url = url\<rparr>)) s)) =
         Some \<lparr>place_line = ascii ''Cafe X'', not_found_note = None, route_href_part000 = url\<rparr>"
  using assms
  by (simp add: result_panel_part000_def render_result_part000_def submit_resume_def)

text \<open>
  Claim C9, as amended. In \<^verbatim>\<open>frontend/src/App.jsx\<close>, when the request in flight comes back
  with the place named \<^verbatim>\<open>Cafe X\<close> at \<^verbatim>\<open>distance_km\<close> 2.3, \<^verbatim>\<open>candidates_considered\<close> 4 and a route
  URL, the result panel shows the name \<^verbatim>\<open>Cafe X\<close>, the round-trip distance \<^verbatim>\<open>4.6\<close>, and a link
  whose \<^verbatim>\<open>href\<close> is the route URL. In the second copy the panel shows the name \<^verbatim>\<open>Cafe X\<close> and
  the link whose \<^verbatim>\<open>href\<close> is the route URL, and no distance.
\<close>

theorem scenario_cafe_x:
  "(i < length (inflight s) \<longrightarrow>
      result_panel (page_view (step cfg (Settle i (Ok_json
           \<lparr>selected_place = Some \<lparr>place_name = ascii ''Cafe X'',
              distance_km = Fin (2589569785738035 / 2 ^ 50), address_name = ad, phone = ph\<rparr>,
            candidates_considered = Fin 4, route_url = url\<rparr>)) s)) =
         Some \<lparr>content = Place_found
                  \<lparr>shown_name = ascii ''Cafe X'',
                   one_way_km = Number_toString (Fin (2589569785738035 / 2 ^ 50)),
                   round_trip_km = Str (ascii ''4.6''),
                   target_km = Number_toString (distanceKm (ap s)),
                   shown_address = shown_if_truthy ad,
                   shown_phone = shown_if_truthy ph,
                   shown_candidates = Number_toString (Fin 4)\<rparr>,
               route_href = url\<rparr>) \<and>
   (j < length (inflight t) \<longrightarrow>
      result_panel_part000 (ap (step cfg (Settle j (Ok_json
           \<lparr>selected_place = Some \<lparr>place_name = ascii ''Cafe X'',
              distance_km = Fin (2589569785738035 / 2 ^ 50), address_name = ad, phone = ph\<rparr>,
            candidates_considered = Fin 4, route_url = url\<rparr>)) t)) =
         Some \<lparr>place_line = ascii ''Cafe X'', not_found_note = None, route_href_part000 = url\<rparr>)"
  using scenario_cafe_x_app [of i s cfg ad ph url] scenario_cafe_x_part000 [of j t cfg ad ph url]
  by blast

theorem scenario_cafe_x_witness:
  "0 < length (inflight waiting_page) \<and>
   result_panel (page_view (step example_config (Settle 0 (Ok_json
           \<lparr>selected_place = Some \<lparr>place_name = ascii ''Cafe X'',
              distance_km = Fin (2589569785738035 / 2 ^ 50), address_name = None, phone = None\<rparr>,
            candidates_considered = Fin 4, route_url = ascii ''https://map.kakao.com/link/to/1''\<rparr>)) waiting_page)) =
         Some \<lparr>content = Place_found
                  \<lparr>shown_name = ascii ''Cafe X'',
                   one_way_km = Number_toString (Fin (2589569785738035 / 2 ^ 50)),
                   round_trip_km = Str (ascii ''4.6''),
                   target_km = Number_toString (Fin 5),
                   shown_address = None,
                   shown_phone = None,
                   shown_candidates = Number_toString (Fin 4)\<rparr>,
               route_href = ascii ''https://map.kakao.com/link/to/1''\<rparr> \<and>
   result_panel_part000 (ap (step example_config (Settle 0 (Ok_json
           \<lparr>selected_place = Some \<lparr>place_name = ascii ''Cafe X'',
              distance_km = Fin (2589569785738035 / 2 ^ 50), address_name = None, phone = None\<rparr>,
            candidates_considered = Fin 4, route_url = ascii ''https://map.kakao.com/link/to/1''\<rparr>)) waiting_page)) =
         Some \<lparr>place_line = ascii ''Cafe X'', not_found_note = None,
               route_href_part000 = ascii ''https://map.kakao.com/link/to/1''\<rparr>"
proof -
  have h1: "0 < length (inflight waiting_page)" by code_simp
  have d: "distanceKm (ap waiting_page) = Fin 5" by code_simp
  have t: "shown_if_truthy None = None" by (simp add: shown_if_truthy_def truthy_def)
  note c = scenario_cafe_x [of 0 waiting_page example_config None None
      "ascii ''https://map.kakao.com/link/to/1''" 0 waiting_page]
  from c [THEN conjunct1] h1 d t c [THEN conjunct2] show ?thesis by simp
qed

text \<open>
  The claim as it is written fails on the second copy: for the response of the scenario
  its panel is the name and the link, and neither contains \<^verbatim>\<open>4.6\<close>.
\<close>

theorem scenario_second_copy_counterexample:
  "result_panel_part000 (ap (step example_config (Settle 0 (Ok_json cafe_x)) waiting_page)) =
     Some \<lparr>place_line = ascii ''Cafe X'', not_found_note = None,
           route_href_part000 = ascii ''https://map.kakao.com/link/to/1''\<rparr> \<and>
   \<not> str_includes (ascii ''Cafe X'') (ascii ''4.6'') \<and>
   \<not> str_includes (ascii ''https://map.kakao.com/link/to/1'') (ascii ''4.6'')"
  by code_simp

subsection \<open>The life of a request\<close>

lemma step_keeps_clear: "in_flight_clear s \<Longrightarrow> \<not> settles e \<Longrightarrow> in_flight_clear (step cfg e s)"
  by (cases e)
     (auto simp: in_flight_clear_def set_hook_def click_listener_def onPick_def button_disabled_def
           split: prod.splits option.splits)

lemma run_keeps_clear:
  "in_flight_clear s \<Longrightarrow> \<forall>e\<in>set es. \<not> settles e \<Longrightarrow> in_flight_clear (run cfg es s)"
  by (induction es arbitrary: s) (simp_all add: step_keeps_clear)

lemma accepted_click_clears: "accepts cfg s \<Longrightarrow> in_flight_clear (step cfg Click_submit s)"
  by (auto simp: accepts_def in_flight_clear_def button_disabled_def submit_def split: if_splits)

lemma clear_view:
  "in_flight_clear s \<Longrightarrow> result_panel (page_view s) = None \<and> error_banner (page_view s) = None"
  by (simp add: in_flight_clear_def page_view_def App_render_def shown_if_truthy_def truthy_def)

text \<open>
  Claim C7. A click on the submit button that is accepted leaves the page loading with
  the stored error and the stored result cleared, and they stay so, with neither an error
  banner nor a result panel on the page, through every event until the awaited calls of
  a request settle: pressing the button again after a success never shows the earlier
  result while the new request is in flight.
\<close>

theorem accepted_submit_clears:
  assumes "accepts cfg s"
    and "\<forall>e\<in>set es. \<not> settles e"
  shows "let s' = run cfg (Click_submit # es) s in
           loading (ap s') \<and> error (ap s') = None \<and> result (ap s') = None \<and>
           result_panel (page_view s') = None \<and> error_banner (page_view s') = None"
proof -
  have "in_flight_clear (step cfg Click_submit s)"
    using assms(1) by (rule accepted_click_clears)
  then have c: "in_flight_clear (run cfg es (step cfg Click_submit s))"
    using assms(2) by (rule run_keeps_clear)
  from c clear_view [OF c] show ?thesis
    by (simp only: Let_def run.simps in_flight_clear_def simp_thms)
qed

theorem accepted_submit_clears_witness:
  "result (ap success_page) = Some cafe_x \<and>
   accepts example_config success_page \<and>
   loading (ap (run example_config (Click_submit # [Edit_theme (ascii ''beer''), Timer]) success_page)) \<and>
   error (ap (run example_config (Click_submit # [Edit_theme (ascii ''beer''), Timer]) success_page)) = None \<and>
   result (ap (run example_config (Click_submit # [Edit_theme (ascii ''beer''), Timer]) success_page)) = None \<and>
   result_panel (page_view (run example_config (Click_submit # [Edit_theme (ascii ''beer''), Timer]) success_page)) = None \<and>
   error_banner (page_view (run example_config (Click_submit # [Edit_theme (ascii ''beer''), Timer]) success_page)) = None"
proof -
  have r: "result (ap success_page) = Some cafe_x" by code_simp
  have h1: "accepts example_config success_page" by code_simp
  have h2: "\<forall>e\<in>set [Edit_theme (ascii ''beer''), Timer]. \<not> settles e" by simp
  from r h1 accepted_submit_clears [OF h1 h2, unfolded Let_def] show ?thesis by blast
qed

lemma banner_None: "error a = None \<Longrightarrow> error_banner (App_render p a) = None"
  by (simp add: App_render_def shown_if_truthy_def truthy_def)

lemma panel_None: "result a = None \<Longrightarrow> result_panel (App_render p a) = None"
  by (simp add: App_render_def)

text \<open>
  Claim C10. On every page reached from the initial one, the stored error and the stored
  result are not both set, and so the error banner and the result panel are not both
  shown. An accepted \<^verbatim>\<open>submit\<close> clears both before the request is sent, an ok response sets
  the result and leaves the error as it is, and a response that is not ok or a rejected
  call sets the error and leaves the result as it is.
\<close>

theorem error_result_exclusive:
  "(let s = run cfg es (page_init br) in
      (error (ap s) = None \<or> result (ap s) = None) \<and>
      (error_banner (page_view s) = None \<or> result_panel (page_view s) = None)) \<and>
   (submit cfg a = Some (a', req) \<longrightarrow> error a' = None \<and> result a' = None) \<and>
   (result (submit_resume (Ok_json r) a) = Some r \<and> error (submit_resume (Ok_json r) a) = error a) \<and>
   (error (submit_resume (Not_ok txt) a) \<noteq> None \<and> result (submit_resume (Not_ok txt) a) = result a) \<and>
   (error (submit_resume (Rejected e) a) \<noteq> None \<and> result (submit_resume (Rejected e) a) = result a)"
proof -
  define s where "s = run cfg es (page_init br)"
  have x: "error (ap s) = None \<or> result (ap s) = None"
    using reachable_inv [of cfg es br] by (simp add: s_def app_inv_def)
  then have v: "error_banner (page_view s) = None \<or> result_panel (page_view s) = None"
    using banner_None [of "ap s" "mp s"] panel_None [of "ap s" "mp s"]
    by (auto simp: page_view_def)
  have c: "submit cfg a = Some (a', req) \<longrightarrow> error a' = None \<and> result a' = None"
    by (auto simp: submit_def split: if_splits)
  have ok: "result (submit_resume (Ok_json r) a) = Some r \<and> error (submit_resume (Ok_json r) a) = error a"
    by (simp add: submit_resume_def)
  have no: "error (submit_resume (Not_ok txt) a) \<noteq> None \<and> result (submit_resume (Not_ok txt) a) = result a"
    by (simp add: submit_resume_def submit_catch_def Let_def)
  have rj: "error (submit_resume (Rejected e) a) \<noteq> None \<and> result (submit_resume (Rejected e) a) = result a"
    by (simp add: submit_resume_def submit_catch_def Let_def)
  from x v c ok no rj show ?thesis unfolding Let_def s_def [symmetric] by blast
qed

theorem error_result_exclusive_witness:
  "result (ap success_page) \<noteq> None \<and>
   error ((ap success_page)\<lparr>loading := True, error := None, result := None\<rparr>) = None \<and>
   result ((ap success_page)\<lparr>loading := True, error := None, result := None\<rparr>) = None \<and>
   submit example_config (ap success_page) =
     Some ((ap success_page)\<lparr>loading := True, error := None, result := None\<rparr>,
           \<lparr>start_lat = lat (ap success_page), start_lng = lng (ap success_page),
            req_distance_km = distanceKm (ap success_page), theme_keyword = theme (ap success_page)\<rparr>) \<and>
   (error (ap (run example_config
       (map_becomes_ready @ [city_hall_click, Click_submit, Settle 0 (Not_ok (ascii ''upstream failed''))])
       (page_init fresh_browser))) = None \<or>
    result (ap (run example_config
       (map_becomes_ready @ [city_hall_click, Click_submit, Settle 0 (Not_ok (ascii ''upstream failed''))])
       (page_init fresh_browser))) = None) \<and>
   error (ap (run example_config
       (map_becomes_ready @ [city_hall_click, Click_submit, Settle 0 (Not_ok (ascii ''upstream failed''))])
       (page_init fresh_browser))) \<noteq> None"
proof -
  have r: "result (ap success_page) \<noteq> None" by code_simp
  have cs: "canSubmit (ap success_page)" by code_simp
  have tb: "truthy (BACKEND_URL example_config)" by code_simp
  have h: "submit example_config (ap success_page) =
     Some ((ap success_page)\<lparr>loading := True, error := None, result := None\<rparr>,
           \<lparr>start_lat = lat (ap success_page), start_lng = lng (ap success_page),
            req_distance_km = distanceKm (ap success_page), theme_keyword = theme (ap success_page)\<rparr>)"
    using cs tb by (simp add: submit_def)
  have e: "error (ap (run example_config
       (map_becomes_ready @ [city_hall_click, Click_submit, Settle 0 (Not_ok (ascii ''upstream failed''))])
       (page_init fresh_browser))) \<noteq> None"
    by code_simp
  note t = error_result_exclusive [of example_config
      "map_becomes_ready @ [city_hall_click, Click_submit, Settle 0 (Not_ok (ascii ''upstream failed''))]"
      fresh_browser "ap success_page", unfolded Let_def]
  have x: "error (ap (run example_config
       (map_becomes_ready @ [city_hall_click, Click_submit, Settle 0 (Not_ok (ascii ''upstream failed''))])
       (page_init fresh_browser))) = None \<or>
    result (ap (run example_config
       (map_becomes_ready @ [city_hall_click, Click_submit, Settle 0 (Not_ok (ascii ''upstream failed''))])
       (page_init fresh_browser))) = None"
    by (rule t [THEN conjunct1, THEN conjunct1])
  from t [THEN conjunct2, THEN conjunct1] h
  have c: "error ((ap success_page)\<lparr>loading := True, error := None, result := None\<rparr>) = None \<and>
     result ((ap success_page)\<lparr>loading := True, error := None, result := None\<rparr>) = None"
    by (rule mp)
  from r h x e c show ?thesis by blast
qed

subsection \<open>Clicks on the map\<close>

lemma clicks_snoc: "clicks (cs @ [c]) = clicks cs @ [Map_click (fst c) (snd c)]"
  by (simp add: clicks_def split: prod.splits)

lemma run_append: "run cfg (es @ fs) s = run cfg fs (run cfg es s)"
  by (induction es arbitrary: s) simp_all

lemma clicks_keep_surface:
  "map_surface (mp s) \<noteq> None \<Longrightarrow> map_surface (mp (run cfg (clicks cs) s)) \<noteq> None"
  by (induction cs arbitrary: s) (auto simp: clicks_def click_listener_def)

lemma clicks_logs:
  "map_surface (mp s) \<noteq> None \<Longrightarrow>
   onPick_calls (run cfg (clicks cs) s) = onPick_calls s @ cs \<and>
   setPosition_calls (run cfg (clicks cs) s) = setPosition_calls s @ cs"
  by (induction cs arbitrary: s) (auto simp: clicks_def click_listener_def)

lemma last_click:
  assumes "map_surface (mp s) \<noteq> None"
  shows "let s' = run cfg (clicks (cs @ [(la, lo)])) s in
     lat (ap s') = Some la \<and> lng (ap s') = Some lo \<and> coords (mp s') = Some (la, lo) \<and>
     map_option marker (map_surface (mp s')) = Some (la, lo)"
proof -
  obtain m where m: "map_surface (mp (run cfg (clicks cs) s)) = Some m"
    using clicks_keep_surface [OF assms, of cfg cs] by auto
  show ?thesis
    by (simp add: clicks_snoc run_append m click_listener_def onPick_def)
qed

text \<open>
  Claim C8. On a page whose map surface exists, a sequence of \<open>N\<close> clicks makes exactly
  \<open>N\<close> calls of \<^verbatim>\<open>onPick\<close> and \<open>N\<close> calls of \<^verbatim>\<open>marker.setPosition\<close>, in the order of the clicks
  and each with the latitude and longitude of its click; after the \<open>k\<close>-th click the
  marker is at that click's coordinate; and after the sequence \<open>lat\<close> and \<open>lng\<close> of \<^verbatim>\<open>App\<close>
  are those of the last click.
\<close>

theorem clicks_are_picked:
  assumes "map_surface (mp s) \<noteq> None"
  shows "onPick_calls (run cfg (clicks cs) s) = onPick_calls s @ cs \<and>
         setPosition_calls (run cfg (clicks cs) s) = setPosition_calls s @ cs \<and>
         length (onPick_calls (run cfg (clicks cs) s)) = length (onPick_calls s) + length cs \<and>
         (\<forall>k < length cs.
            map_option marker (map_surface (mp (run cfg (clicks (take (Suc k) cs)) s))) = Some (cs ! k)) \<and>
         (cs \<noteq> [] \<longrightarrow>
            lat (ap (run cfg (clicks cs) s)) = Some (fst (last cs)) \<and>
            lng (ap (run cfg (clicks cs) s)) = Some (snd (last cs)))"
proof -
  have logs: "onPick_calls (run cfg (clicks cs) s) = onPick_calls s @ cs \<and>
         setPosition_calls (run cfg (clicks cs) s) = setPosition_calls s @ cs"
    using assms by (rule clicks_logs)
  have mk: "map_option marker (map_surface (mp (run cfg (clicks (take (Suc k) cs)) s))) = Some (cs ! k)"
    if "k < length cs" for k
  proof -
    have "take (Suc k) cs = take k cs @ [(fst (cs ! k), snd (cs ! k))]"
      using that by (simp add: take_Suc_conv_app_nth)
    then show ?thesis
      using last_click [OF assms, of cfg "take k cs" "fst (cs ! k)" "snd (cs ! k)"]
      by (simp add: Let_def)
  qed
  have lst: "lat (ap (run cfg (clicks cs) s)) = Some (fst (last cs)) \<and>
            lng (ap (run cfg (clicks cs) s)) = Some (snd (last cs))" if "cs \<noteq> []"
  proof -
    have "cs = butlast cs @ [(fst (last cs), snd (last cs))]"
      using that by simp
    then show ?thesis
      using last_click [OF assms, of cfg "butlast cs" "fst (last cs)" "snd (last cs)"]
      by (simp add: Let_def)
  qed
  from logs mk lst show ?thesis by simp
qed

theorem clicks_are_picked_witness:
  "map_surface (mp ready_page) \<noteq> None \<and>
   onPick_calls (run example_config (clicks [(Fin 1, Fin 2), (Fin 3, Fin 4), (Fin 1, Fin 2)]) ready_page)
     = [(Fin 1, Fin 2), (Fin 3, Fin 4), (Fin 1, Fin 2)] \<and>
   setPosition_calls (run example_config (clicks [(Fin 1, Fin 2), (Fin 3, Fin 4), (Fin 1, Fin 2)]) ready_page)
     = [(Fin 1, Fin 2), (Fin 3, Fin 4), (Fin 1, Fin 2)] \<and>
   lat (ap (run example_config (clicks [(Fin 1, Fin 2), (Fin 3, Fin 4), (Fin 1, Fin 2)]) ready_page)) = Some (Fin 1) \<and>
   lng (ap (run example_config (clicks [(Fin 1, Fin 2), (Fin 3, Fin 4), (Fin 1, Fin 2)]) ready_page)) = Some (Fin 2)"
proof -
  have h: "map_surface (mp ready_page) \<noteq> None" by code_simp
  have l: "onPick_calls ready_page = []" "setPosition_calls ready_page = []" by code_simp+
  from h l clicks_are_picked [OF h, of example_config "[(Fin 1, Fin 2), (Fin 3, Fin 4), (Fin 1, Fin 2)]"]
  show ?thesis by simp
qed

subsection \<open>Mounting the loader\<close>

lemma sdk_src_matches: "str_includes (sdk_src key) (ascii ''dapi.kakao.com'')"
proof -
  have "sublist (ascii ''dapi.kakao.com'') (ascii ''//dapi.kakao.com/v2/maps/sdk.js?appkey='')"
    by (simp add: ascii_def sublist_code)
  then show ?thesis
    by (simp add: str_includes_def sdk_src_def sublist_append)
qed

lemma existingScript_iff: "existingScript br \<noteq> None \<longleftrightarrow> kakao_scripts br \<noteq> []"
  by (auto simp: existingScript_def kakao_scripts_def find_None_iff filter_empty_conv)

lemma appended_script_found:
  assumes "scripts br = xs @ [\<lparr>script_id = i, src = sdk_src key\<rparr>]"
  shows "existingScript br \<noteq> None"
proof -
  have "kakao_scripts br \<noteq> []"
    using assms by (simp add: kakao_scripts_def sdk_src_matches)
  then show ?thesis using existingScript_iff [of br] by blast
qed

lemma existingScript_win [simp]: "existingScript (br\<lparr>win := w\<rparr>) = existingScript br"
  by (simp add: existingScript_def)

lemma effect_with_script:
  "existingScript br \<noteq> None \<Longrightarrow>
   scripts (fst (useKakaoLoader_effect cfg (br, l))) = scripts br \<and>
   next_id (fst (useKakaoLoader_effect cfg (br, l))) = next_id br"
  by (auto simp: useKakaoLoader_effect_def split: option.splits)

lemma effect_at_most_one:
  "scripts (fst (useKakaoLoader_effect cfg (br, l))) = scripts br \<or>
   (\<exists>key. scripts (fst (useKakaoLoader_effect cfg (br, l))) = scripts br @ [\<lparr>script_id = next_id br, src = sdk_src key\<rparr>])"
  by (auto simp: useKakaoLoader_effect_def split: option.splits)

lemma mounts_with_script:
  "existingScript br \<noteq> None \<Longrightarrow>
   scripts (fst (mounts cfg ws br)) = scripts br \<and> next_id (fst (mounts cfg ws br)) = next_id br"
proof (induction ws arbitrary: br)
  case Nil
  then show ?case by simp
next
  case (Cons w ws)
  let ?b = "br\<lparr>win := w\<rparr>"
  obtain br1 l where e: "useKakaoLoader_effect cfg (?b, loader_init) = (br1, l)"
    by (cases "useKakaoLoader_effect cfg (?b, loader_init)")
  from Cons.prems have ex: "existingScript ?b \<noteq> None" by simp
  from effect_with_script [OF ex, of cfg loader_init] e
  have s1: "scripts br1 = scripts br" "next_id br1 = next_id br" by simp_all
  then have "existingScript br1 \<noteq> None"
    using Cons.prems by (simp add: existingScript_def)
  from Cons.IH [OF this] s1 e show ?case
    by (simp add: split_beta)
qed

lemma mounts_at_most_one:
  "length (scripts (fst (mounts cfg ws br))) \<le> Suc (length (scripts br))"
proof (induction ws arbitrary: br)
  case Nil
  then show ?case by simp
next
  case (Cons w ws)
  let ?b = "br\<lparr>win := w\<rparr>"
  obtain br1 l where e: "useKakaoLoader_effect cfg (?b, loader_init) = (br1, l)"
    by (cases "useKakaoLoader_effect cfg (?b, loader_init)")
  have m: "fst (mounts cfg (w # ws) br) = fst (mounts cfg ws br1)"
    using e by (simp add: split_beta)
  from effect_at_most_one [of cfg ?b loader_init] e
  consider (same) "scripts br1 = scripts br"
    | (ins) key where "scripts br1 = scripts br @ [\<lparr>script_id = next_id br, src = sdk_src key\<rparr>]"
    by auto
  then show ?case
  proof cases
    case same
    with Cons.IH [of br1] m show ?thesis by simp
  next
    case ins
    then have "existingScript br1 \<noteq> None"
      by (rule appended_script_found)
    from mounts_with_script [OF this, of cfg ws] ins m show ?thesis by simp
  qed
qed

lemma first_mount_inserts:
  assumes "truthy (KAKAO_JS_KEY cfg)" and "\<not> kakao_ready w" and "existingScript br = None"
  shows "useKakaoLoader_effect cfg (br\<lparr>win := w\<rparr>, loader_init) =
           (br\<lparr>win := w, scripts := scripts br @ [\<lparr>script_id = next_id br, src = sdk_src (the (KAKAO_JS_KEY cfg))\<rparr>],
               next_id := Suc (next_id br)\<rparr>,
            loader_init\<lparr>script_elem := Some (next_id br), awaiting_script := True\<rparr>)"
  using assms by (auto simp: useKakaoLoader_effect_def truthy_def split: option.splits)

lemma mount_when_ready:
  assumes "truthy (KAKAO_JS_KEY cfg)" and "kakao_ready (win br)"
  shows "useKakaoLoader_effect cfg (br, l) = (br, l\<lparr>loaded := True\<rparr>)"
  using assms by (auto simp: useKakaoLoader_effect_def truthy_def split: option.splits)

lemma mount_with_existing:
  assumes "truthy (KAKAO_JS_KEY cfg)" and "\<not> kakao_ready (win br)" and "existingScript br \<noteq> None"
  shows "useKakaoLoader_effect cfg (br, l) = (br, l\<lparr>poll_timer := True\<rparr>)"
  using assms by (auto simp: useKakaoLoader_effect_def truthy_def checkLoaded_def split: option.splits)

lemma poll_until_ready:
  "timer_fired w (l\<lparr>poll_timer := True\<rparr>) =
     (if kakao_ready w then l\<lparr>poll_timer := False, loaded := True\<rparr> else l\<lparr>poll_timer := True\<rparr>)"
  by (simp add: timer_fired_def checkLoaded_def)

lemma part000_mount_with_sdk:
  "kakao_maps (win br) \<Longrightarrow> useKakaoLoader_effect_part000 cfg (br, l) = (br, l\<lparr>loaded := True\<rparr>)"
  by (simp add: useKakaoLoader_effect_part000_def)

lemma part000_mount_appends:
  "truthy (KAKAO_JS_KEY cfg) \<Longrightarrow> \<not> kakao_maps (win br) \<Longrightarrow>
   length (scripts (fst (useKakaoLoader_effect_part000 cfg (br, l)))) = Suc (length (scripts br))"
  by (auto simp: useKakaoLoader_effect_part000_def truthy_def split: option.splits)

lemma part000_one_script_each:
  "truthy (KAKAO_JS_KEY cfg) \<Longrightarrow> \<forall>w\<in>set ws. \<not> kakao_maps w \<Longrightarrow>
   length (scripts (fst (mounts_part000 cfg ws br))) = length (scripts br) + length ws"
proof (induction ws arbitrary: br)
  case Nil
  then show ?case by simp
next
  case (Cons w ws)
  obtain br1 l where e: "useKakaoLoader_effect_part000 cfg (br\<lparr>win := w\<rparr>, loader_init) = (br1, l)"
    by (cases "useKakaoLoader_effect_part000 cfg (br\<lparr>win := w\<rparr>, loader_init)")
  from Cons.prems have "\<not> kakao_maps (win (br\<lparr>win := w\<rparr>))" by simp
  from part000_mount_appends [OF Cons.prems(1) this, of loader_init] e
  have l1: "length (scripts br1) = Suc (length (scripts br))" by simp
  from Cons.prems have "\<forall>w\<in>set ws. \<not> kakao_maps w" by simp
  from Cons.IH [OF Cons.prems(1) this, of br1] l1 e show ?case
    by (simp add: split_beta)
qed

text \<open>
  Claim C4, as amended. In \<^verbatim>\<open>frontend/src/App.jsx\<close>, however many instances of the hook mount
  on one document, and whatever the SDK has done to \<^verbatim>\<open>window.kakao\<close> between the mounts, at
  most one script element is appended; when the key is set, the document has no SDK script
  and the first mount finds the library not initialised, exactly one is appended by any
  number of mounts from one on. A mount that finds the library initialised sets \<^verbatim>\<open>loaded\<close>
  and leaves the document as it is; a mount that finds an SDK script in the document leaves
  the document as it is and polls: each timeout sets \<^verbatim>\<open>loaded\<close> if the library is initialised
  by then and polls again if it is not. In the second copy, which never looks for a script
  already in the document, every mount with the key set that finds no \<^verbatim>\<open>window.kakao.maps\<close>
  appends a script element of its own, and a mount that finds \<^verbatim>\<open>window.kakao.maps\<close> sets
  \<^verbatim>\<open>loaded\<close> and leaves the document as it is.
\<close>

theorem one_script_for_all_mounts:
  "length (scripts (fst (mounts cfg ws br))) \<le> Suc (length (scripts br)) \<and>
   (truthy (KAKAO_JS_KEY cfg) \<and> existingScript br = None \<and> \<not> kakao_ready w \<longrightarrow>
      scripts (fst (mounts cfg (w # ws) br)) =
        scripts br @ [\<lparr>script_id = next_id br, src = sdk_src (the (KAKAO_JS_KEY cfg))\<rparr>] \<and>
      next_id (fst (mounts cfg (w # ws) br)) = Suc (next_id br)) \<and>
   (truthy (KAKAO_JS_KEY cfg) \<and> kakao_ready (win br) \<longrightarrow>
      useKakaoLoader_effect cfg (br, l) = (br, l\<lparr>loaded := True\<rparr>)) \<and>
   (truthy (KAKAO_JS_KEY cfg) \<and> \<not> kakao_ready (win br) \<and> existingScript br \<noteq> None \<longrightarrow>
      useKakaoLoader_effect cfg (br, l) = (br, l\<lparr>poll_timer := True\<rparr>) \<and>
      timer_fired w' (l\<lparr>poll_timer := True\<rparr>) =
        (if kakao_ready w' then l\<lparr>poll_timer := False, loaded := True\<rparr> else l\<lparr>poll_timer := True\<rparr>)) \<and>
   (truthy (KAKAO_JS_KEY cfg) \<and> (\<forall>w\<in>set ws. \<not> kakao_maps w) \<longrightarrow>
      length (scripts (fst (mounts_part000 cfg ws br))) = length (scripts br) + length ws) \<and>
   (kakao_maps (win br) \<longrightarrow>
      useKakaoLoader_effect_part000 cfg (br, l) = (br, l\<lparr>loaded := True\<rparr>))"
proof -
  have p: "length (scripts (fst (mounts_part000 cfg ws br))) = length (scripts br) + length ws"
    if "truthy (KAKAO_JS_KEY cfg)" "\<forall>w\<in>set ws. \<not> kakao_maps w"
    using that by (rule part000_one_script_each)
  have q: "useKakaoLoader_effect_part000 cfg (br, l) = (br, l\<lparr>loaded := True\<rparr>)"
    if "kakao_maps (win br)"
    using that by (rule part000_mount_with_sdk)
  have a: "length (scripts (fst (mounts cfg ws br))) \<le> Suc (length (scripts br))"
    by (rule mounts_at_most_one)
  have b: "scripts (fst (mounts cfg (w # ws) br)) =
        scripts br @ [\<lparr>script_id = next_id br, src = sdk_src (the (KAKAO_JS_KEY cfg))\<rparr>] \<and>
      next_id (fst (mounts cfg (w # ws) br)) = Suc (next_id br)"
    if h: "truthy (KAKAO_JS_KEY cfg)" "existingScript br = None" "\<not> kakao_ready w"
  proof -
    let ?b1 = "br\<lparr>win := w, scripts := scripts br @ [\<lparr>script_id = next_id br, src = sdk_src (the (KAKAO_JS_KEY cfg))\<rparr>],
               next_id := Suc (next_id br)\<rparr>"
    have m: "fst (mounts cfg (w # ws) br) = fst (mounts cfg ws ?b1)"
      using first_mount_inserts [OF h(1) h(3) h(2)] by (simp add: split_beta)
    have "scripts ?b1 = scripts br @ [\<lparr>script_id = next_id br, src = sdk_src (the (KAKAO_JS_KEY cfg))\<rparr>]"
      by simp
    then have "existingScript ?b1 \<noteq> None"
      by (rule appended_script_found)
    from mounts_with_script [OF this, of cfg ws] m show ?thesis by simp
  qed
  have c: "useKakaoLoader_effect cfg (br, l) = (br, l\<lparr>loaded := True\<rparr>)"
    if "truthy (KAKAO_JS_KEY cfg)" "kakao_ready (win br)"
    using that by (rule mount_when_ready)
  have d: "useKakaoLoader_effect cfg (br, l) = (br, l\<lparr>poll_timer := True\<rparr>)"
    if "truthy (KAKAO_JS_KEY cfg)" "\<not> kakao_ready (win br)" "existingScript br \<noteq> None"
    using that by (rule mount_with_existing)
  from a b c d p q poll_until_ready [of w' l] show ?thesis by blast
qed

theorem one_script_for_all_mounts_witness:
  "truthy (KAKAO_JS_KEY example_config) \<and> existingScript fresh_browser = None \<and> \<not> kakao_ready sdk_absent \<and>
   scripts (fst (mounts example_config (sdk_absent # [sdk_absent, sdk_fetched, sdk_initialised]) fresh_browser)) =
     [\<lparr>script_id = 0, src = sdk_src (ascii ''demo-key'')\<rparr>] \<and>
   kakao_ready (win (waiting_browser\<lparr>win := sdk_initialised\<rparr>)) \<and>
   useKakaoLoader_effect example_config (waiting_browser\<lparr>win := sdk_initialised\<rparr>, loader_init) =
     (waiting_browser\<lparr>win := sdk_initialised\<rparr>, loader_init\<lparr>loaded := True\<rparr>) \<and>
   \<not> kakao_ready (win waiting_browser) \<and> existingScript waiting_browser \<noteq> None \<and>
   useKakaoLoader_effect example_config (waiting_browser, loader_init) =
     (waiting_browser, loader_init\<lparr>poll_timer := True\<rparr>) \<and>
   length (scripts (fst (mounts_part000 example_config [sdk_absent, sdk_absent, sdk_absent] fresh_browser))) = 3 \<and>
   kakao_maps (win (waiting_browser\<lparr>win := sdk_fetched\<rparr>)) \<and>
   useKakaoLoader_effect_part000 example_config (waiting_browser\<lparr>win := sdk_fetched\<rparr>, loader_init) =
     (waiting_browser\<lparr>win := sdk_fetched\<rparr>, loader_init\<lparr>loaded := True\<rparr>)"
proof -
  have k: "truthy (KAKAO_JS_KEY example_config)" by code_simp
  have na: "\<forall>w\<in>set [sdk_absent, sdk_absent, sdk_absent]. \<not> kakao_maps w" by (simp add: sdk_absent_def)
  have km: "kakao_maps (win (waiting_browser\<lparr>win := sdk_fetched\<rparr>))" by (simp add: sdk_fetched_def)
  from one_script_for_all_mounts [of example_config "[sdk_absent, sdk_absent, sdk_absent]" fresh_browser sdk_absent]
    k na
  have p: "length (scripts (fst (mounts_part000 example_config [sdk_absent, sdk_absent, sdk_absent] fresh_browser))) = 3"
    by (simp add: fresh_browser_def)
  from one_script_for_all_mounts [of example_config "[]" "waiting_browser\<lparr>win := sdk_fetched\<rparr>" sdk_absent loader_init] km
  have q: "useKakaoLoader_effect_part000 example_config (waiting_browser\<lparr>win := sdk_fetched\<rparr>, loader_init) =
     (waiting_browser\<lparr>win := sdk_fetched\<rparr>, loader_init\<lparr>loaded := True\<rparr>)"
    by blast
  have kv: "the (KAKAO_JS_KEY example_config) = ascii ''demo-key''" by (simp add: example_config_def)
  have f: "existingScript fresh_browser = None" by code_simp
  have n: "\<not> kakao_ready sdk_absent" by code_simp
  have f0: "scripts fresh_browser = []" "next_id fresh_browser = 0" by (simp_all add: fresh_browser_def)
  have r: "kakao_ready (win (waiting_browser\<lparr>win := sdk_initialised\<rparr>))" by code_simp
  have w: "\<not> kakao_ready (win waiting_browser)" by code_simp
  have e: "existingScript waiting_browser \<noteq> None" by code_simp
  from one_script_for_all_mounts [of example_config "[sdk_absent, sdk_fetched, sdk_initialised]" fresh_browser sdk_absent]
    k f n kv f0
  have a: "scripts (fst (mounts example_config (sdk_absent # [sdk_absent, sdk_fetched, sdk_initialised]) fresh_browser)) =
     [\<lparr>script_id = 0, src = sdk_src (ascii ''demo-key'')\<rparr>]"
    by simp
  from one_script_for_all_mounts [of example_config "[]" "waiting_browser\<lparr>win := sdk_initialised\<rparr>" sdk_absent loader_init] k r
  have b: "useKakaoLoader_effect example_config (waiting_browser\<lparr>win := sdk_initialised\<rparr>, loader_init) =
     (waiting_browser\<lparr>win := sdk_initialised\<rparr>, loader_init\<lparr>loaded := True\<rparr>)"
    by blast
  from one_script_for_all_mounts [of example_config "[]" waiting_browser sdk_absent loader_init] k w e
  have c: "useKakaoLoader_effect example_config (waiting_browser, loader_init) =
     (waiting_browser, loader_init\<lparr>poll_timer := True\<rparr>)"
    by blast
  from k f n a r b w e c p km q show ?thesis by blast
qed

text \<open>
  The claim as it is written fails on the second copy: two instances mounting on a fresh
  document before the SDK has run append two script elements.
\<close>

theorem two_mounts_second_copy_counterexample:
  "scripts fresh_browser = [] \<and>
   length (scripts (fst (mounts_part000 example_config [sdk_absent, sdk_absent] fresh_browser))) = 2"
  by code_simp

subsection \<open>A missing key\<close>

















end
